theory Spec2Isabelle
  imports Main "HOL-Library.Word"
begin

section \<open>The X11 mouse cursor monitor (mouse\_cursor\_monitor\_x11.cc)\<close>

text \<open>
  A shallow embedding of \<^verbatim>\<open>MouseCursorMonitorX11\<close>, of the helper
  \<^verbatim>\<open>GetTopLevelWindow\<close> and of the two factory functions. The X server is not
  part of the program: every reply of an Xlib call is an input of the function that
  makes the call. Mutation of the object is explicit state passing, the calls made
  on the \<^verbatim>\<open>Callback\<close> are returned as a list in call order, and an
  \<^verbatim>\<open>assert\<close> that fails, a signed overflow, an access outside a buffer and
  a call through a NULL pointer are error values. Whether \<^verbatim>\<open>NDEBUG\<close> is
  defined when the file is compiled is a parameter \<open>ndebug\<close> of every function
  that contains an \<^verbatim>\<open>assert\<close> or calls one that does.
\<close>

subsection \<open>Xlib and Xfixes types and constants\<close>

text \<open>\<^verbatim>\<open>Window\<close> is an XID. Only equality is ever used on it.\<close>

type_synonym Window = nat

text \<open>Xlib's \<^verbatim>\<open>None\<close> (X.h: \<^verbatim>\<open>#define None 0L\<close>).\<close>

definition X_None :: Window where
  "X_None = 0"

text \<open>Xfixes wire constants (xfixeswire.h).\<close>

definition XFixesCursorNotify :: int where
  "XFixesCursorNotify = 1"

definition XFixesDisplayCursorNotify :: int where
  "XFixesDisplayCursorNotify = 0"

definition XFixesDisplayCursorNotifyMask :: nat where
  "XFixesDisplayCursorNotifyMask = 1"

text \<open>
  What the program reads of a \<^verbatim>\<open>Display*\<close>: the reply of
  \<^verbatim>\<open>XQueryTree\<close> for a window (\<open>None\<close> when the call returns 0, otherwise the
  pair \<open>(root, parent)\<close>), and \<^verbatim>\<open>DefaultRootWindow\<close>.
\<close>

record Display =
  XQueryTree :: "Window \<Rightarrow> (Window \<times> Window) option"
  DefaultRootWindow :: Window

text \<open>
  \<^verbatim>\<open>XFixesCursorImage\<close> (Xfixes.h): the dimensions and the hotspot are
  \<^verbatim>\<open>unsigned short\<close>, the pixels an array of \<^verbatim>\<open>unsigned long\<close>
  (64 bits on LP64).
\<close>

record XFixesCursorImage =
  width :: "16 word"
  height :: "16 word"
  xhot :: "16 word"
  yhot :: "16 word"
  pixels :: "64 word list"

text \<open>
  The reply to \<^verbatim>\<open>XFixesGetCursorImage\<close> under an \<^verbatim>\<open>XErrorTrap\<close>: the
  image pointer (\<open>None\<close> for NULL) and the value of
  \<^verbatim>\<open>GetLastErrorAndDisable()\<close>.
\<close>

record cursor_reply =
  img :: "XFixesCursorImage option"
  img_error :: int

text \<open>The fields of an \<^verbatim>\<open>XEvent\<close> that \<^verbatim>\<open>HandleXEvent\<close> reads.\<close>

record XEvent =
  ev_type :: int
  ev_subtype :: int

text \<open>
  The reply to \<^verbatim>\<open>XQueryPointer\<close> under an \<^verbatim>\<open>XErrorTrap\<close>: the
  return value, the out-parameters the program reads, and the trapped error code.
  After a failed call the out-parameters hold whatever the locals of
  \<^verbatim>\<open>Capture\<close> held before it; they are part of the reply all the same.
\<close>

record pointer_reply =
  result :: bool
  root_window :: Window
  child_window :: Window
  win_x :: int
  win_y :: int
  ptr_error :: int

subsection \<open>desktop\_capture types\<close>

datatype Mode = SHAPE_ONLY | SHAPE_AND_POSITION

datatype CursorState = INSIDE | OUTSIDE

type_synonym DesktopVector = "int \<times> int"

type_synonym DesktopSize = "int \<times> int"

record DesktopFrame =
  frame_size :: DesktopSize
  frame_data :: "32 word list"

record MouseCursor =
  cursor_image :: DesktopFrame
  cursor_hotspot :: DesktopVector

text \<open>A call made on the \<^verbatim>\<open>Callback\<close>.\<close>

datatype callback_call =
  OnMouseCursor MouseCursor
| OnMouseCursorPosition CursorState DesktopVector

text \<open>
  \<^verbatim>\<open>SharedXDisplay\<close>: the connection, and the registrations (of this handler)
  it holds: event types passed to \<^verbatim>\<open>AddEventHandler\<close> and the arguments
  of \<^verbatim>\<open>XFixesSelectCursorInput\<close>.
\<close>

record SharedXDisplay =
  display :: Display
  event_handlers :: "int list"
  cursor_input :: "(Window \<times> nat) list"

record DesktopCaptureOptions =
  x_display :: "SharedXDisplay option"

definition AddEventHandler :: "int \<Rightarrow> SharedXDisplay \<Rightarrow> SharedXDisplay" where
  "AddEventHandler t d = d\<lparr>event_handlers := event_handlers d @ [t]\<rparr>"

definition RemoveEventHandler :: "int \<Rightarrow> SharedXDisplay \<Rightarrow> SharedXDisplay" where
  "RemoveEventHandler t d = d\<lparr>event_handlers := remove1 t (event_handlers d)\<rparr>"

definition XFixesSelectCursorInput :: "Window \<Rightarrow> nat \<Rightarrow> SharedXDisplay \<Rightarrow> SharedXDisplay" where
  "XFixesSelectCursorInput w m d = d\<lparr>cursor_input := cursor_input d @ [(w, m)]\<rparr>"

text \<open>
  Modelled from the spec: the constructor of \<^verbatim>\<open>BasicDesktopFrame\<close>
  (desktop\_frame.cc is not among the sources) allocates a bitmap sized to the
  reported width times height, one 32-bit pixel per element. The contents before the
  first write are not specified; the model starts from zeros.
\<close>

definition BasicDesktopFrame :: "DesktopSize \<Rightarrow> DesktopFrame" where
  "BasicDesktopFrame sz =
     \<lparr>frame_size = sz, frame_data = replicate (nat (fst sz * snd sz)) 0\<rparr>"

subsection \<open>Errors\<close>

text \<open>
  \<^verbatim>\<open>AssertionFailed\<close>: the condition of an \<^verbatim>\<open>assert\<close> is false
  in a build where \<^verbatim>\<open>NDEBUG\<close> is not defined, and the program aborts.
  \<^verbatim>\<open>SignedOverflow\<close>: an \<^verbatim>\<open>int\<close> product exceeds
  \<^verbatim>\<open>INT_MAX\<close>. \<^verbatim>\<open>OutOfBounds\<close>: a read or write outside a buffer.
  \<^verbatim>\<open>NullPointer\<close>: a member function is called through a NULL pointer.
\<close>

datatype error = AssertionFailed | SignedOverflow | OutOfBounds | NullPointer

definition INT_MAX :: int where
  "INT_MAX = 2147483647"

subsection \<open>GetTopLevelWindow\<close>

text \<open>
  The \<^verbatim>\<open>while (true)\<close> loop. It need not terminate on an arbitrary reply
  function, so not returning is the value \<open>None\<close>. The second component of the
  result is not in the source: it lists the windows passed to
  \<^verbatim>\<open>XQueryTree\<close>, in call order, so that the number of queries can be stated.
\<close>

partial_function (option) GetTopLevelWindow_loop ::
  "Display \<Rightarrow> Window \<Rightarrow> Window list \<Rightarrow> (Window \<times> Window list) option" where
  "GetTopLevelWindow_loop dpy window queried =
     (case XQueryTree dpy window of
        None \<Rightarrow> Some (X_None, queried @ [window])
      | Some (root, parent) \<Rightarrow>
          if parent = root then Some (window, queried @ [window])
          else GetTopLevelWindow_loop dpy parent (queried @ [window]))"

declare GetTopLevelWindow_loop.simps [code]

definition GetTopLevelWindow :: "Display \<Rightarrow> Window \<Rightarrow> Window option" where
  "GetTopLevelWindow dpy window = map_option fst (GetTopLevelWindow_loop dpy window [])"

subsection \<open>The monitor\<close>

text \<open>
  The data members of the class. A member \<^verbatim>\<open>name_\<close> is the field
  \<open>name_m\<close> (an identifier cannot end with an underscore). A
  \<^verbatim>\<open>Callback*\<close> is an address, \<open>None\<close> for NULL.
\<close>

type_synonym Callback = nat

record MouseCursorMonitorX11 =
  x_display_m :: SharedXDisplay
  callback_m :: "Callback option"
  mode_m :: Mode
  window_m :: Window
  have_xfixes_m :: bool
  xfixes_event_base_m :: int
  xfixes_error_base_m :: int
  cursor_shape_m :: "MouseCursor option"

text \<open>
  The outcome of a member function: its result, or the error that stops the program
  together with the object as it is at that point (what the call has written before
  it fails stays written).
\<close>

type_synonym 'a outcome = "(error \<times> MouseCursorMonitorX11) + 'a"

text \<open>
  \<^verbatim>\<open>assert(cond)\<close> stops the program exactly when \<^verbatim>\<open>NDEBUG\<close>
  is not defined and the condition is false; with \<^verbatim>\<open>NDEBUG\<close> it expands
  to nothing.
\<close>

definition assert_fails :: "bool \<Rightarrow> bool \<Rightarrow> bool" where
  "assert_fails ndebug cond \<longleftrightarrow> \<not> ndebug \<and> \<not> cond"

text \<open>
  The constructor. It reads \<^verbatim>\<open>options.x_display()\<close>; both factories call it
  only after checking that pointer, so it takes the display itself.
\<close>

definition new_MouseCursorMonitorX11 :: "SharedXDisplay \<Rightarrow> Window \<Rightarrow> MouseCursorMonitorX11" where
  "new_MouseCursorMonitorX11 xd window =
     \<lparr>x_display_m = xd, callback_m = None, mode_m = SHAPE_AND_POSITION, window_m = window,
      have_xfixes_m = False, xfixes_event_base_m = - 1, xfixes_error_base_m = - 1,
      cursor_shape_m = None\<rparr>"

text \<open>
  The destructor: what it leaves of the display's registrations.
\<close>

definition delete_MouseCursorMonitorX11 :: "MouseCursorMonitorX11 \<Rightarrow> SharedXDisplay" where
  "delete_MouseCursorMonitorX11 s =
     (if have_xfixes_m s
      then RemoveEventHandler (xfixes_event_base_m s + XFixesCursorNotify) (x_display_m s)
      else x_display_m s)"

text \<open>
  The copy loop of \<^verbatim>\<open>CaptureCursor\<close>:
  \<^verbatim>\<open>while (dst < dst_end) *dst++ = static_cast<uint32_t>(*src++);\<close>
  Both pointers advance together, so one index \<open>i\<close> stands for both and \<open>n\<close> for
  \<^verbatim>\<open>dst_end\<close>. Reading or writing outside a buffer is \<open>None\<close>.
\<close>

function copy_pixels ::
  "64 word list \<Rightarrow> 32 word list \<Rightarrow> nat \<Rightarrow> nat \<Rightarrow> 32 word list option" where
  "copy_pixels src dst i n =
     (if i < n then
        (if i < length src \<and> i < length dst
         then copy_pixels src (dst[i := ucast (src ! i)]) (Suc i) n
         else None)
      else Some dst)"
  by pat_completeness auto
termination
  by (relation "measure (\<lambda>(src, dst, i, n). n - i)") auto

declare copy_pixels.simps [simp del]

text \<open>
  \<^verbatim>\<open>CaptureCursor\<close>. \<^verbatim>\<open>img->width * img->height\<close> multiplies two
  \<^verbatim>\<open>unsigned short\<close> values after promotion to \<^verbatim>\<open>int\<close>; a product
  above \<^verbatim>\<open>INT_MAX\<close> is a signed overflow. \<^verbatim>\<open>std::min\<close> compares the
  unsigned values, and \<^verbatim>\<open>DesktopVector\<close> and \<^verbatim>\<open>DesktopSize\<close> take
  them as \<^verbatim>\<open>int\<close>.
\<close>

definition CaptureCursor ::
  "bool \<Rightarrow> MouseCursorMonitorX11 \<Rightarrow> cursor_reply \<Rightarrow> MouseCursorMonitorX11 outcome" where
  "CaptureCursor ndebug s r =
     (if assert_fails ndebug (have_xfixes_m s) then Inl (AssertionFailed, s)
      else case img r of
        None \<Rightarrow> Inr s
      | Some im \<Rightarrow>
          if img_error r \<noteq> 0 then Inr s
          else
            let image = BasicDesktopFrame (uint (width im), uint (height im));
                n = uint (width im) * uint (height im)
            in if n > INT_MAX then Inl (SignedOverflow, s)
               else
                 (case copy_pixels (pixels im) (frame_data image) 0 (nat n) of
                    None \<Rightarrow> Inl (OutOfBounds, s)
                  | Some d \<Rightarrow>
                      let hotspot = (uint (min (width im) (xhot im)),
                                     uint (min (height im) (yhot im)))
                      in Inr (s\<lparr>cursor_shape_m :=
                            Some \<lparr>cursor_image = image\<lparr>frame_data := d\<rparr>,
                                  cursor_hotspot = hotspot\<rparr>\<rparr>)))"

text \<open>\<^verbatim>\<open>HandleXEvent\<close>: the returned flag is always \<^verbatim>\<open>false\<close>.\<close>

definition HandleXEvent ::
  "bool \<Rightarrow> MouseCursorMonitorX11 \<Rightarrow> XEvent \<Rightarrow> cursor_reply \<Rightarrow>
   (bool \<times> MouseCursorMonitorX11) outcome" where
  "HandleXEvent ndebug s event r =
     (if have_xfixes_m s \<and> ev_type event = xfixes_event_base_m s + XFixesCursorNotify then
        (if ev_subtype event = XFixesDisplayCursorNotify then
           (case CaptureCursor ndebug s r of
              Inl e \<Rightarrow> Inl e
            | Inr s' \<Rightarrow> Inr (False, s'))
         else Inr (False, s))
      else Inr (False, s))"

text \<open>
  \<^verbatim>\<open>x_display_->ProcessPendingXEvents()\<close> belongs to
  \<^verbatim>\<open>SharedXDisplay\<close>. What it does to this object is a sequence of
  \<^verbatim>\<open>HandleXEvent\<close> calls, one for each event it dispatches to this handler; the
  list of these events is an input, each with the reply the server would give to
  \<^verbatim>\<open>XFixesGetCursorImage\<close> at that moment.
\<close>

fun ProcessPendingXEvents ::
  "bool \<Rightarrow> MouseCursorMonitorX11 \<Rightarrow> (XEvent \<times> cursor_reply) list \<Rightarrow>
   MouseCursorMonitorX11 outcome" where
  "ProcessPendingXEvents ndebug s [] = Inr s"
| "ProcessPendingXEvents ndebug s ((event, r) # rest) =
     (case HandleXEvent ndebug s event r of
        Inl e \<Rightarrow> Inl e
      | Inr (_, s') \<Rightarrow> ProcessPendingXEvents ndebug s' rest)"

text \<open>
  The inputs of \<^verbatim>\<open>Init\<close>: the return value of
  \<^verbatim>\<open>XFixesQueryExtension\<close>, the values of its two out-parameters after the
  call, and the reply to the first \<^verbatim>\<open>XFixesGetCursorImage\<close>.
\<close>

record init_env =
  xfixes_present :: bool
  event_base_out :: int
  error_base_out :: int
  first_cursor :: cursor_reply

definition Init ::
  "bool \<Rightarrow> MouseCursorMonitorX11 \<Rightarrow> Callback option \<Rightarrow> Mode \<Rightarrow> init_env \<Rightarrow>
   MouseCursorMonitorX11 outcome" where
  "Init ndebug s callback mode env =
     (if assert_fails ndebug (callback_m s = None) then Inl (AssertionFailed, s)
      else if assert_fails ndebug (callback \<noteq> None) then Inl (AssertionFailed, s)
      else
        let s1 = s\<lparr>callback_m := callback, mode_m := mode\<rparr>;
            s2 = s1\<lparr>have_xfixes_m := xfixes_present env,
                    xfixes_event_base_m := event_base_out env,
                    xfixes_error_base_m := error_base_out env\<rparr>
        in if have_xfixes_m s2 then
             CaptureCursor ndebug
               (s2\<lparr>x_display_m :=
                  AddEventHandler (xfixes_event_base_m s2 + XFixesCursorNotify)
                    (XFixesSelectCursorInput (window_m s2) XFixesDisplayCursorNotifyMask
                       (x_display_m s2))\<rparr>)
               (first_cursor env)
           else Inr s2)"

text \<open>
  The inputs of \<^verbatim>\<open>Capture\<close>: the events dispatched to this handler while pending
  events are processed, and the reply to \<^verbatim>\<open>XQueryPointer\<close>.
\<close>

record capture_env =
  pending :: "(XEvent \<times> cursor_reply) list"
  pointer :: pointer_reply

text \<open>
  \<^verbatim>\<open>Capture\<close>. Both deliveries are calls through
  \<^verbatim>\<open>callback_\<close>; where that pointer is NULL (which only a build with
  \<^verbatim>\<open>NDEBUG\<close> lets through) the call is the error
  \<^verbatim>\<open>NullPointer\<close>. The argument \<^verbatim>\<open>cursor_shape_.release()\<close> is
  evaluated before the call, so the slot is empty by then.
\<close>

definition Capture ::
  "bool \<Rightarrow> MouseCursorMonitorX11 \<Rightarrow> capture_env \<Rightarrow>
   (MouseCursorMonitorX11 \<times> callback_call list) outcome" where
  "Capture ndebug s env =
     (if assert_fails ndebug (callback_m s \<noteq> None) then Inl (AssertionFailed, s)
      else case ProcessPendingXEvents ndebug s (pending env) of
        Inl e \<Rightarrow> Inl e
      | Inr s1 \<Rightarrow>
          let (s2, shape_calls) =
                (case cursor_shape_m s1 of
                   Some c \<Rightarrow> (s1\<lparr>cursor_shape_m := None\<rparr>, [OnMouseCursor c])
                 | None \<Rightarrow> (s1, []))
          in if shape_calls \<noteq> [] \<and> callback_m s2 = None then Inl (NullPointer, s2)
             else if mode_m s2 = SHAPE_AND_POSITION then
               let q = pointer env;
                   state =
                     (if \<not> result q \<or> ptr_error q \<noteq> 0 then OUTSIDE
                      else if window_m s2 = root_window q \<or> child_window q \<noteq> X_None
                           then INSIDE else OUTSIDE)
               in if callback_m s2 = None then Inl (NullPointer, s2)
                  else Inr (s2, shape_calls @ [OnMouseCursorPosition state (win_x q, win_y q)])
             else Inr (s2, shape_calls))"

subsection \<open>The factories\<close>

text \<open>
  \<^verbatim>\<open>CreateForWindow\<close> returns a pointer (inner \<open>option\<close>, \<open>None\<close> for
  NULL); the outer \<open>option\<close> is \<open>None\<close> when \<^verbatim>\<open>GetTopLevelWindow\<close> does
  not return.
\<close>

definition CreateForWindow ::
  "DesktopCaptureOptions \<Rightarrow> Window \<Rightarrow> MouseCursorMonitorX11 option option" where
  "CreateForWindow options window =
     (case x_display options of
        None \<Rightarrow> Some None
      | Some xd \<Rightarrow>
          (case GetTopLevelWindow (display xd) window of
             None \<Rightarrow> None
           | Some window' \<Rightarrow>
               if window' = X_None then Some None
               else Some (Some (new_MouseCursorMonitorX11 xd window'))))"

type_synonym ScreenId = int

definition CreateForScreen ::
  "DesktopCaptureOptions \<Rightarrow> ScreenId \<Rightarrow> MouseCursorMonitorX11 option" where
  "CreateForScreen options screen =
     (case x_display options of
        None \<Rightarrow> None
      | Some xd \<Rightarrow> Some (new_MouseCursorMonitorX11 xd (DefaultRootWindow (display xd))))"

subsection \<open>Notions used to state the properties\<close>

text \<open>
  An image is within bounds when its element count fits an \<^verbatim>\<open>int\<close> and its
  pixel buffer holds at least that many elements.
\<close>

definition image_ok :: "XFixesCursorImage \<Rightarrow> bool" where
  "image_ok im \<longleftrightarrow>
     uint (width im) * uint (height im) \<le> INT_MAX \<and>
     unat (width im) * unat (height im) \<le> length (pixels im)"

text \<open>
  The cursor that \<^verbatim>\<open>CaptureCursor\<close> stores for an image within bounds
  (lemma \<open>CaptureCursor_stores\<close>): the first width times height native elements, each
  reduced to 32 bits, in the order of the buffer.
\<close>

definition stored_shape :: "XFixesCursorImage \<Rightarrow> MouseCursor" where
  "stored_shape im =
     \<lparr>cursor_image =
        \<lparr>frame_size = (uint (width im), uint (height im)),
         frame_data = map ucast (take (unat (width im) * unat (height im)) (pixels im))\<rparr>,
      cursor_hotspot = (uint (min (width im) (xhot im)), uint (min (height im) (yhot im)))\<rparr>"

text \<open>
  The ancestor chain of a window, from the window itself up to the child of the root
  that contains it: the parent reported for each window is the next window of the list
  and differs from the reported root, and the parent reported for the last window is
  the root. The depth of the chain is the number of windows after the first.
\<close>

fun toplevel_chain :: "Display \<Rightarrow> Window list \<Rightarrow> bool" where
  "toplevel_chain dpy [] = False"
| "toplevel_chain dpy [t] =
     (case XQueryTree dpy t of None \<Rightarrow> False | Some (root, parent) \<Rightarrow> parent = root)"
| "toplevel_chain dpy (w # p # ws) =
     (case XQueryTree dpy w of
        None \<Rightarrow> False
      | Some (root, parent) \<Rightarrow> parent \<noteq> root \<and> parent = p \<and> toplevel_chain dpy (p # ws))"

text \<open>The same chain, cut short: the tree query fails for its last window.\<close>

fun broken_chain :: "Display \<Rightarrow> Window list \<Rightarrow> bool" where
  "broken_chain dpy [] = False"
| "broken_chain dpy [t] = (XQueryTree dpy t = None)"
| "broken_chain dpy (w # p # ws) =
     (case XQueryTree dpy w of
        None \<Rightarrow> False
      | Some (root, parent) \<Rightarrow> parent \<noteq> root \<and> parent = p \<and> broken_chain dpy (p # ws))"

text \<open>The arguments of the calls of each kind made on the callback, in call order.\<close>

fun delivered_shapes :: "callback_call list \<Rightarrow> MouseCursor list" where
  "delivered_shapes [] = []"
| "delivered_shapes (OnMouseCursor c # cs) = c # delivered_shapes cs"
| "delivered_shapes (OnMouseCursorPosition st v # cs) = delivered_shapes cs"

fun delivered_positions :: "callback_call list \<Rightarrow> (CursorState \<times> DesktopVector) list" where
  "delivered_positions [] = []"
| "delivered_positions (OnMouseCursor c # cs) = delivered_positions cs"
| "delivered_positions (OnMouseCursorPosition st v # cs) = (st, v) # delivered_positions cs"

text \<open>
  The life of an initialised monitor: a sequence of \<^verbatim>\<open>Capture\<close> calls by the
  owner and of \<^verbatim>\<open>HandleXEvent\<close> calls by the display (when another user of the
  shared display processes events). The run stops at the first error; the calls made
  on the callback are collected.
\<close>

datatype call = CallCapture capture_env | CallHandleXEvent XEvent cursor_reply

fun run_calls ::
  "bool \<Rightarrow> MouseCursorMonitorX11 \<Rightarrow> call list \<Rightarrow>
   (MouseCursorMonitorX11 \<times> callback_call list) outcome" where
  "run_calls ndebug s [] = Inr (s, [])"
| "run_calls ndebug s (CallCapture env # cs) =
     (case Capture ndebug s env of
        Inl e \<Rightarrow> Inl e
      | Inr (s', out) \<Rightarrow>
          (case run_calls ndebug s' cs of
             Inl e \<Rightarrow> Inl e
           | Inr (s'', out') \<Rightarrow> Inr (s'', out @ out')))"
| "run_calls ndebug s (CallHandleXEvent event r # cs) =
     (case HandleXEvent ndebug s event r of
        Inl e \<Rightarrow> Inl e
      | Inr (_, s') \<Rightarrow> run_calls ndebug s' cs)"

subsection \<open>Concrete inputs\<close>

text \<open>
  A display whose root is window 1; window 3 is a child of the root, 4 a child of 3
  and 5 a child of 4; the parent of window 6 is window 9, for which the tree query
  fails. A monitor of window 3 after \<^verbatim>\<open>Init\<close> with Xfixes
  present (event base 87), the 2 by 2 image of the specification, and a pointer reply.
\<close>

definition example_display :: SharedXDisplay where
  "example_display =
     \<lparr>display = \<lparr>XQueryTree = map_of [(5, (1, 4)), (4, (1, 3)), (3, (1, 1)), (6, (1, 9)), (1, (1, 0))],
                  DefaultRootWindow = 1\<rparr>,
      event_handlers = [], cursor_input = []\<rparr>"

definition example_monitor :: MouseCursorMonitorX11 where
  "example_monitor =
     \<lparr>x_display_m = example_display\<lparr>event_handlers := [88], cursor_input := [(3, 1)]\<rparr>,
      callback_m = Some 7, mode_m = SHAPE_AND_POSITION, window_m = 3,
      have_xfixes_m = True, xfixes_event_base_m = 87, xfixes_error_base_m = 140,
      cursor_shape_m = None\<rparr>"

definition example_image :: XFixesCursorImage where
  "example_image =
     \<lparr>width = 2, height = 2, xhot = 1, yhot = 0,
      pixels = [0xAABBCCDD, 0x11223344, 0x55667788, 0x99AABBCC]\<rparr>"

definition example_pointer :: pointer_reply where
  "example_pointer =
     \<lparr>result = True, root_window = 1, child_window = 0, win_x = 40, win_y = - 2,
      ptr_error = 0\<rparr>"

section \<open>Properties\<close>

subsection \<open>The copy loop and CaptureCursor\<close>

lemma copy_pixels_nth:
  "i \<le> n \<Longrightarrow> n \<le> length src \<Longrightarrow> n \<le> length dst \<Longrightarrow>
   \<exists>r. copy_pixels src dst i n = Some r \<and> length r = length dst \<and>
       (\<forall>j < length dst. r ! j = (if i \<le> j \<and> j < n then ucast (src ! j) else dst ! j))"
proof (induction src dst i n rule: copy_pixels.induct)
  case (1 src dst i n)
  show ?case
  proof (cases "i < n")
    case False
    then show ?thesis using "1.prems" by (auto simp: copy_pixels.simps)
  next
    case True
    then have b: "i < length src" "i < length dst" using "1.prems" by auto
    have "\<exists>r. copy_pixels src (dst[i := ucast (src ! i)]) (Suc i) n = Some r \<and>
            length r = length (dst[i := ucast (src ! i)]) \<and>
            (\<forall>j < length (dst[i := ucast (src ! i)]).
               r ! j = (if Suc i \<le> j \<and> j < n then ucast (src ! j)
                        else dst[i := ucast (src ! i)] ! j))"
      using "1.IH" [OF True] b True "1.prems" by simp
    then obtain r where r: "copy_pixels src (dst[i := ucast (src ! i)]) (Suc i) n = Some r"
      "length r = length dst"
      "\<forall>j < length dst. r ! j = (if Suc i \<le> j \<and> j < n then ucast (src ! j)
                        else dst[i := ucast (src ! i)] ! j)"
      by auto
    have "copy_pixels src dst i n = Some r"
      using True b r(1) by (subst copy_pixels.simps) simp
    moreover have "\<forall>j < length dst. r ! j = (if i \<le> j \<and> j < n then ucast (src ! j) else dst ! j)"
      using r(3) True b by (auto simp: nth_list_update)
    ultimately show ?thesis using r(2) by blast
  qed
qed

lemma copy_pixels_all:
  assumes "n \<le> length src" "length dst = n"
  shows "copy_pixels src dst 0 n = Some (map ucast (take n src))"
proof -
  obtain r where r: "copy_pixels src dst 0 n = Some r" "length r = length dst"
    "\<forall>j < length dst. r ! j = (if 0 \<le> j \<and> j < n then ucast (src ! j) else dst ! j)"
    using copy_pixels_nth [of 0 n src dst] assms by auto
  have "r = map ucast (take n src)"
    using r(2,3) assms by (intro nth_equalityI) auto
  then show ?thesis using r(1) by simp
qed

lemma nat_uint_mult: "nat (uint (a :: 16 word) * uint (b :: 16 word)) = unat a * unat b"
  by (simp add: nat_mult_distrib)

lemma CaptureCursor_stores:
  assumes "have_xfixes_m s" "img r = Some im" "img_error r = 0" "image_ok im"
  shows "CaptureCursor ndebug s r = Inr (s\<lparr>cursor_shape_m := Some (stored_shape im)\<rparr>)"
proof -
  let ?n = "unat (width im) * unat (height im)"
  have "copy_pixels (pixels im) (replicate ?n 0) 0 ?n = Some (map ucast (take ?n (pixels im)))"
    using assms(4) by (intro copy_pixels_all) (simp_all add: image_ok_def)
  then show ?thesis
    using assms
    by (simp add: CaptureCursor_def assert_fails_def image_ok_def BasicDesktopFrame_def
        stored_shape_def nat_uint_mult Let_def)
qed

lemma CaptureCursor_keeps:
  assumes "have_xfixes_m s" "img r = None \<or> img_error r \<noteq> 0"
  shows "CaptureCursor ndebug s r = Inr s"
proof (cases "img r")
  case None
  then show ?thesis using assms(1) by (simp add: CaptureCursor_def assert_fails_def)
next
  case (Some im)
  then show ?thesis using assms by (simp add: CaptureCursor_def assert_fails_def)
qed

lemma delivered_shapes_append:
  "delivered_shapes (xs @ ys) = delivered_shapes xs @ delivered_shapes ys"
  by (induction xs rule: delivered_shapes.induct) simp_all

lemma delivered_positions_append:
  "delivered_positions (xs @ ys) = delivered_positions xs @ delivered_positions ys"
  by (induction xs rule: delivered_positions.induct) simp_all

lemma CaptureCursor_fields:
  assumes "CaptureCursor ndebug s r = Inr s'"
  shows "s' = s\<lparr>cursor_shape_m := cursor_shape_m s'\<rparr>"
  using assms
  by (auto simp: CaptureCursor_def Let_def split: if_splits option.splits)

lemma HandleXEvent_fields:
  assumes "HandleXEvent ndebug s event r = Inr (b, s')"
  shows "s' = s\<lparr>cursor_shape_m := cursor_shape_m s'\<rparr> \<and> b = False"
proof (cases "have_xfixes_m s \<and> ev_type event = xfixes_event_base_m s + XFixesCursorNotify
    \<and> ev_subtype event = XFixesDisplayCursorNotify")
  case True
  then obtain t where "CaptureCursor ndebug s r = Inr t" "s' = t" "b = False"
    using assms by (auto simp: HandleXEvent_def split: sum.splits)
  then show ?thesis using CaptureCursor_fields [of ndebug s r t] by simp
next
  case False
  then have "s' = s" "b = False" using assms by (auto simp: HandleXEvent_def split: if_splits)
  then show ?thesis by simp
qed

lemma ProcessPendingXEvents_fields:
  "ProcessPendingXEvents ndebug s evs = Inr s' \<Longrightarrow> s' = s\<lparr>cursor_shape_m := cursor_shape_m s'\<rparr>"
proof (induction evs arbitrary: s)
  case Nil
  then show ?case by simp
next
  case (Cons ev evs)
  obtain event r where ev: "ev = (event, r)" by (cases ev)
  from Cons.prems ev obtain b t where t: "HandleXEvent ndebug s event r = Inr (b, t)"
    and rest: "ProcessPendingXEvents ndebug t evs = Inr s'"
    by (auto split: sum.splits)
  have "t = s\<lparr>cursor_shape_m := cursor_shape_m t\<rparr>"
    using HandleXEvent_fields [OF t] by simp
  moreover have "s' = t\<lparr>cursor_shape_m := cursor_shape_m s'\<rparr>"
    using Cons.IH [OF rest] .
  ultimately show ?case
    by (metis MouseCursorMonitorX11.update_convs(8) MouseCursorMonitorX11.surjective)
qed

lemma Capture_result:
  assumes "callback_m s \<noteq> None" "ProcessPendingXEvents ndebug s (pending env) = Inr s1"
  shows "Capture ndebug s env =
    Inr (s1\<lparr>cursor_shape_m := None\<rparr>,
         (case cursor_shape_m s1 of Some c \<Rightarrow> [OnMouseCursor c] | None \<Rightarrow> []) @
         (if mode_m s = SHAPE_AND_POSITION then
            [OnMouseCursorPosition
               (if \<not> result (pointer env) \<or> ptr_error (pointer env) \<noteq> 0 then OUTSIDE
                else if window_m s = root_window (pointer env) \<or>
                        child_window (pointer env) \<noteq> X_None
                     then INSIDE else OUTSIDE)
               (win_x (pointer env), win_y (pointer env))]
          else []))"
proof -
  have f: "s1 = s\<lparr>cursor_shape_m := cursor_shape_m s1\<rparr>"
    using ProcessPendingXEvents_fields [OF assms(2)] .
  have m: "mode_m s1 = mode_m s" "window_m s1 = window_m s" "callback_m s1 = callback_m s"
    by (subst f, simp)+
  obtain cb where cb: "callback_m s = Some cb" using assms(1) by blast
  show ?thesis
  proof (cases "cursor_shape_m s1")
    case None
    then have "s1\<lparr>cursor_shape_m := None\<rparr> = s1" by simp
    then show ?thesis
      using assms(2) None m cb by (simp add: Capture_def assert_fails_def Let_def)
  next
    case (Some c)
    then show ?thesis
      using assms(2) m cb by (simp add: Capture_def assert_fails_def Let_def)
  qed
qed

lemma HandleXEvent_inert:
  "\<not> have_xfixes_m s \<Longrightarrow> HandleXEvent ndebug s event r = Inr (False, s)"
  by (simp add: HandleXEvent_def)

lemma ProcessPendingXEvents_inert:
  "\<not> have_xfixes_m s \<Longrightarrow> ProcessPendingXEvents ndebug s evs = Inr s"
proof (induction evs)
  case Nil
  then show ?case by simp
next
  case (Cons ev evs)
  then show ?case by (cases ev) (simp add: HandleXEvent_inert)
qed

lemma Capture_inert:
  assumes "\<not> have_xfixes_m s" "cursor_shape_m s = None" "callback_m s \<noteq> None"
  shows "\<exists>out. Capture ndebug s env = Inr (s, out) \<and> delivered_shapes out = []"
proof -
  have "ProcessPendingXEvents ndebug s (pending env) = Inr s"
    using assms(1) by (rule ProcessPendingXEvents_inert)
  from Capture_result [OF assms(3) this] assms(2) show ?thesis by simp
qed

lemma run_calls_inert:
  assumes "\<not> have_xfixes_m s" "cursor_shape_m s = None" "callback_m s \<noteq> None"
  shows "\<exists>out. run_calls ndebug s cs = Inr (s, out) \<and> delivered_shapes out = []"
proof (induction cs)
  case Nil
  show ?case by simp
next
  case (Cons c cs)
  then obtain out' where rest: "run_calls ndebug s cs = Inr (s, out')" "delivered_shapes out' = []"
    by blast
  show ?case
  proof (cases c)
    case (CallCapture env)
    obtain out where "Capture ndebug s env = Inr (s, out)" "delivered_shapes out = []"
      using Capture_inert [OF assms] by blast
    then show ?thesis using rest CallCapture by (simp add: delivered_shapes_append)
  next
    case (CallHandleXEvent event r)
    then show ?thesis using rest assms(1) by (simp add: HandleXEvent_inert)
  qed
qed

lemma Init_without_xfixes:
  assumes "callback_m s = None" "\<not> xfixes_present ienv"
  shows "Init ndebug s (Some cb) mode ienv =
    Inr (s\<lparr>callback_m := Some cb, mode_m := mode, have_xfixes_m := False,
           xfixes_event_base_m := event_base_out ienv,
           xfixes_error_base_m := error_base_out ienv\<rparr>)"
  using assms by (simp add: Init_def assert_fails_def Let_def)

lemma HandleXEvent_notify:
  assumes "have_xfixes_m s"
    and "ev_type event = xfixes_event_base_m s + XFixesCursorNotify"
    and "ev_subtype event = XFixesDisplayCursorNotify"
    and "img r = Some im" and "img_error r = 0" and "image_ok im"
  shows "HandleXEvent ndebug s event r = Inr (False, s\<lparr>cursor_shape_m := Some (stored_shape im)\<rparr>)"
  using assms(1-3) CaptureCursor_stores [OF assms(1,4,5,6)]
  by (simp add: HandleXEvent_def)

lemma Init_sets_callback:
  assumes "Init ndebug s callback mode ienv = Inr s1"
  shows "callback_m s1 = callback"
proof -
  have c: "\<not> assert_fails ndebug (callback_m s = None)"
    "\<not> assert_fails ndebug (callback \<noteq> None)"
    using assms by (auto simp: Init_def split: if_splits)
  show ?thesis
  proof (cases "xfixes_present ienv")
    case False
    then show ?thesis using assms c by (auto simp: Init_def Let_def)
  next
    case True
    let ?s3 = "s\<lparr>callback_m := callback, mode_m := mode, have_xfixes_m := True,
        xfixes_event_base_m := event_base_out ienv,
        xfixes_error_base_m := error_base_out ienv,
        x_display_m :=
          AddEventHandler (event_base_out ienv + XFixesCursorNotify)
            (XFixesSelectCursorInput (window_m s) XFixesDisplayCursorNotifyMask
               (x_display_m s))\<rparr>"
    have "CaptureCursor ndebug ?s3 (first_cursor ienv) = Inr s1"
      using assms c True by (simp add: Init_def Let_def)
    then have "s1 = ?s3\<lparr>cursor_shape_m := cursor_shape_m s1\<rparr>"
      by (rule CaptureCursor_fields)
    then have "callback_m s1 = callback_m (?s3\<lparr>cursor_shape_m := cursor_shape_m s1\<rparr>)"
      by simp
    then show ?thesis by simp
  qed
qed

lemma Init_display:
  assumes "Init ndebug s callback mode ienv = Inr s1"
  shows "x_display_m s1 =
        (if xfixes_present ienv
         then AddEventHandler (event_base_out ienv + XFixesCursorNotify)
                (XFixesSelectCursorInput (window_m s) XFixesDisplayCursorNotifyMask
                   (x_display_m s))
         else x_display_m s)"
proof -
  have c: "\<not> assert_fails ndebug (callback_m s = None)"
    "\<not> assert_fails ndebug (callback \<noteq> None)"
    using assms by (auto simp: Init_def split: if_splits)
  show ?thesis
  proof (cases "xfixes_present ienv")
    case False
    then show ?thesis using assms c by (auto simp: Init_def Let_def)
  next
    case True
    let ?s3 = "s\<lparr>callback_m := callback, mode_m := mode, have_xfixes_m := True,
        xfixes_event_base_m := event_base_out ienv,
        xfixes_error_base_m := error_base_out ienv,
        x_display_m :=
          AddEventHandler (event_base_out ienv + XFixesCursorNotify)
            (XFixesSelectCursorInput (window_m s) XFixesDisplayCursorNotifyMask
               (x_display_m s))\<rparr>"
    have "CaptureCursor ndebug ?s3 (first_cursor ienv) = Inr s1"
      using assms c True by (simp add: Init_def Let_def)
    then have "s1 = ?s3\<lparr>cursor_shape_m := cursor_shape_m s1\<rparr>"
      by (rule CaptureCursor_fields)
    then have "x_display_m s1 = x_display_m (?s3\<lparr>cursor_shape_m := cursor_shape_m s1\<rparr>)"
      by simp
    then show ?thesis using True by simp
  qed
qed

subsection \<open>GetTopLevelWindow on a chain of ancestors\<close>

lemma GetTopLevelWindow_loop_chain:
  "toplevel_chain dpy (w # ws) \<Longrightarrow>
   GetTopLevelWindow_loop dpy w queried = Some (last (w # ws), queried @ w # ws)"
proof (induction ws arbitrary: w queried)
  case Nil
  then show ?case
    by (subst GetTopLevelWindow_loop.simps) (auto split: option.splits)
next
  case (Cons p ws)
  from Cons.prems obtain root where q: "XQueryTree dpy w = Some (root, p)" "p \<noteq> root"
    and rest: "toplevel_chain dpy (p # ws)"
    by (auto split: option.splits)
  have "GetTopLevelWindow_loop dpy w queried = GetTopLevelWindow_loop dpy p (queried @ [w])"
    using q by (subst GetTopLevelWindow_loop.simps) simp
  also have "\<dots> = Some (last (p # ws), (queried @ [w]) @ p # ws)"
    using rest by (rule Cons.IH)
  finally show ?case by simp
qed

lemma GetTopLevelWindow_loop_broken:
  "broken_chain dpy (w # ws) \<Longrightarrow>
   GetTopLevelWindow_loop dpy w queried = Some (X_None, queried @ w # ws)"
proof (induction ws arbitrary: w queried)
  case Nil
  then show ?case
    by (subst GetTopLevelWindow_loop.simps) simp
next
  case (Cons p ws)
  from Cons.prems obtain root where q: "XQueryTree dpy w = Some (root, p)" "p \<noteq> root"
    and rest: "broken_chain dpy (p # ws)"
    by (auto split: option.splits)
  have "GetTopLevelWindow_loop dpy w queried = GetTopLevelWindow_loop dpy p (queried @ [w])"
    using q by (subst GetTopLevelWindow_loop.simps) simp
  also have "\<dots> = Some (X_None, (queried @ [w]) @ p # ws)"
    using rest by (rule Cons.IH)
  finally show ?case by simp
qed

section \<open>The claims\<close>

subsection \<open>C1: the hotspot of the delivered shape\<close>

text \<open>
  C1, as the specification states it: the hotspot is clamped to \<open>[0, width)\<close> and
  \<open>[0, height)\<close>, and a 10 by 10 image with reported hotspot \<open>(15, 3)\<close> is
  delivered with hotspot \<open>(9, 3)\<close>. The program computes
  \<^verbatim>\<open>std::min(img->width, img->xhot)\<close> and
  \<^verbatim>\<open>std::min(img->height, img->yhot)\<close>: the bound is the width and the height
  themselves. On the example, a notification for this image followed by
  \<^verbatim>\<open>Capture\<close> hands over the hotspot \<open>(10, 3)\<close>, not \<open>(9, 3)\<close>.
\<close>

theorem delivered_hotspot_at_width:
  "\<exists>s' out.
     run_calls False example_monitor
       [CallHandleXEvent \<lparr>ev_type = 88, ev_subtype = 0\<rparr>
          \<lparr>img = Some \<lparr>width = 10, height = 10, xhot = 15, yhot = 3,
                       pixels = replicate 100 0\<rparr>,
           img_error = 0\<rparr>,
        CallCapture \<lparr>pending = [], pointer = example_pointer\<rparr>] = Inr (s', out) \<and>
     map cursor_hotspot (delivered_shapes out) = [(10, 3)] \<and>
     map cursor_hotspot (delivered_shapes out) \<noteq> [(9, 3)]"
proof -
  let ?im = "\<lparr>width = 10, height = 10, xhot = 15, yhot = 3, pixels = replicate 100 0\<rparr>"
  let ?e = "\<lparr>ev_type = 88, ev_subtype = 0\<rparr>"
  let ?r = "\<lparr>img = Some ?im, img_error = 0\<rparr>"
  let ?env = "\<lparr>pending = [], pointer = example_pointer\<rparr>"
  let ?s1 = "example_monitor\<lparr>cursor_shape_m := Some (stored_shape ?im)\<rparr>"
  have ok: "image_ok ?im" by (simp add: image_ok_def INT_MAX_def)
  have st: "have_xfixes_m example_monitor" "callback_m ?s1 \<noteq> None"
    by (simp_all add: example_monitor_def)
  have ev: "ev_type ?e = xfixes_event_base_m example_monitor + XFixesCursorNotify"
    "ev_subtype ?e = XFixesDisplayCursorNotify"
    by (simp_all add: example_monitor_def XFixesCursorNotify_def XFixesDisplayCursorNotify_def)
  have h: "HandleXEvent False example_monitor ?e ?r = Inr (False, ?s1)"
    using st(1) ev _ _ ok by (rule HandleXEvent_notify) simp_all
  have p: "ProcessPendingXEvents False ?s1 (pending ?env) = Inr ?s1" by simp
  have d: "cursor_hotspot (stored_shape ?im) = (10, 3)"
    by (simp add: stored_shape_def)
  obtain out where c: "Capture False ?s1 ?env = Inr (?s1\<lparr>cursor_shape_m := None\<rparr>, out)"
    and o: "map cursor_hotspot (delivered_shapes out) = [(10, 3)]"
    using Capture_result [OF st(2) p] d by (simp add: delivered_shapes_append)
  have "run_calls False example_monitor [CallHandleXEvent ?e ?r, CallCapture ?env] =
      Inr (?s1\<lparr>cursor_shape_m := None\<rparr>, out)"
    using h c by simp
  then show ?thesis using o by auto
qed

text \<open>
  C1, amended. For every successfully fetched image within bounds, the hotspot of the
  delivered shape is the reported hotspot limited to the width and the height:
  \<open>(min width xhot, min height yhot)\<close>. It lies in \<open>[0, width]\<close> and
  \<open>[0, height]\<close>, never exceeds the reported hotspot, and is the reported hotspot
  itself whenever that lies inside the image. For a 10 by 10 image and a reported
  hotspot \<open>(15, 3)\<close> it is \<open>(10, 3)\<close>.
\<close>

theorem delivered_hotspot_min:
  assumes "have_xfixes_m s" and "callback_m s \<noteq> None"
    and "ev_type e = xfixes_event_base_m s + XFixesCursorNotify"
    and "ev_subtype e = XFixesDisplayCursorNotify"
    and "img r = Some im" and "img_error r = 0" and "image_ok im"
  shows "\<exists>s' out hx hy.
     run_calls ndebug s [CallHandleXEvent e r, CallCapture \<lparr>pending = [], pointer = q\<rparr>] =
       Inr (s', out) \<and>
     map cursor_hotspot (delivered_shapes out) = [(hx, hy)] \<and>
     hx = uint (min (width im) (xhot im)) \<and> hy = uint (min (height im) (yhot im)) \<and>
     0 \<le> hx \<and> hx \<le> uint (width im) \<and> hx \<le> uint (xhot im) \<and>
     0 \<le> hy \<and> hy \<le> uint (height im) \<and> hy \<le> uint (yhot im) \<and>
     (xhot im < width im \<longrightarrow> hx = uint (xhot im)) \<and>
     (yhot im < height im \<longrightarrow> hy = uint (yhot im))"
proof -
  let ?env = "\<lparr>pending = [], pointer = q\<rparr>"
  let ?s1 = "s\<lparr>cursor_shape_m := Some (stored_shape im)\<rparr>"
  let ?hx = "uint (min (width im) (xhot im))"
  let ?hy = "uint (min (height im) (yhot im))"
  have h: "HandleXEvent ndebug s e r = Inr (False, ?s1)"
    using assms(1,3-7) by (rule HandleXEvent_notify)
  have cb: "callback_m ?s1 \<noteq> None" using assms(2) by simp
  have p: "ProcessPendingXEvents ndebug ?s1 (pending ?env) = Inr ?s1" by simp
  have d: "cursor_hotspot (stored_shape im) = (?hx, ?hy)"
    by (simp add: stored_shape_def)
  obtain out where c: "Capture ndebug ?s1 ?env = Inr (?s1\<lparr>cursor_shape_m := None\<rparr>, out)"
    and o: "map cursor_hotspot (delivered_shapes out) = [(?hx, ?hy)]"
    using Capture_result [OF cb p] d by (simp add: delivered_shapes_append)
  have run: "run_calls ndebug s [CallHandleXEvent e r, CallCapture ?env] =
      Inr (?s1\<lparr>cursor_shape_m := None\<rparr>, out)"
    using h c by simp
  have bx: "0 \<le> ?hx" "?hx \<le> uint (width im)" "?hx \<le> uint (xhot im)"
    "xhot im < width im \<longrightarrow> ?hx = uint (xhot im)"
    by (simp_all add: min_def word_le_def word_less_def)
  have by': "0 \<le> ?hy" "?hy \<le> uint (height im)" "?hy \<le> uint (yhot im)"
    "yhot im < height im \<longrightarrow> ?hy = uint (yhot im)"
    by (simp_all add: min_def word_le_def word_less_def)
  show ?thesis
    by (rule exI [of _ "?s1\<lparr>cursor_shape_m := None\<rparr>"], rule exI [of _ out],
        rule exI [of _ ?hx], rule exI [of _ ?hy])
      (use run o bx by' in simp)
qed

theorem delivered_hotspot_min_witness:
  "\<exists>s' out.
     run_calls False example_monitor
       [CallHandleXEvent \<lparr>ev_type = 88, ev_subtype = 0\<rparr>
          \<lparr>img = Some \<lparr>width = 10, height = 10, xhot = 15, yhot = 3,
                       pixels = replicate 100 0\<rparr>,
           img_error = 0\<rparr>,
        CallCapture \<lparr>pending = [], pointer = example_pointer\<rparr>] = Inr (s', out) \<and>
     map cursor_hotspot (delivered_shapes out) = [(10, 3)]"
proof -
  let ?im = "\<lparr>width = 10, height = 10, xhot = 15, yhot = 3, pixels = replicate 100 0\<rparr>"
  let ?e = "\<lparr>ev_type = 88, ev_subtype = 0\<rparr>"
  let ?r = "\<lparr>img = Some ?im, img_error = 0\<rparr>"
  have ok: "image_ok ?im" by (simp add: image_ok_def INT_MAX_def)
  have st: "have_xfixes_m example_monitor" "callback_m example_monitor \<noteq> None"
    by (simp_all add: example_monitor_def)
  have ev: "ev_type ?e = xfixes_event_base_m example_monitor + XFixesCursorNotify"
    "ev_subtype ?e = XFixesDisplayCursorNotify"
    by (simp_all add: example_monitor_def XFixesCursorNotify_def XFixesDisplayCursorNotify_def)
  have r: "img ?r = Some ?im" "img_error ?r = 0" by simp_all
  obtain s' out hx hy where
    "run_calls False example_monitor
       [CallHandleXEvent ?e ?r, CallCapture \<lparr>pending = [], pointer = example_pointer\<rparr>] =
       Inr (s', out)"
    "map cursor_hotspot (delivered_shapes out) = [(hx, hy)]"
    "hx = uint (min (width ?im) (xhot ?im))" "hy = uint (min (height ?im) (yhot ?im))"
    using delivered_hotspot_min [OF st ev r ok, where ndebug = False and q = example_pointer]
    by (elim exE conjE) (rule that, assumption+)
  then show ?thesis by auto
qed

subsection \<open>C2: the position state\<close>

text \<open>
  C2. A \<^verbatim>\<open>Capture\<close> call in mode \<^verbatim>\<open>SHAPE_AND_POSITION\<close>
  (on an initialised monitor, once the pending events are processed) makes exactly one
  \<^verbatim>\<open>OnMouseCursorPosition\<close> call. Its state is \<^verbatim>\<open>OUTSIDE\<close> if
  \<^verbatim>\<open>XQueryPointer\<close> failed or the error trap holds a non-zero code;
  otherwise \<^verbatim>\<open>INSIDE\<close> if the monitored window is the root window of the
  reply; otherwise \<^verbatim>\<open>INSIDE\<close> exactly when the child window of the reply
  is not \<^verbatim>\<open>None\<close>. The coordinates are those of the reply.
\<close>

theorem Capture_position_state:
  assumes "callback_m s \<noteq> None" and "mode_m s = SHAPE_AND_POSITION"
    and "ProcessPendingXEvents ndebug s (pending env) = Inr s1"
  shows "\<exists>s' out. Capture ndebug s env = Inr (s', out) \<and>
     delivered_positions out =
       [(if \<not> result (pointer env) \<or> ptr_error (pointer env) \<noteq> 0 then OUTSIDE
         else if window_m s = root_window (pointer env) then INSIDE
         else if child_window (pointer env) \<noteq> X_None then INSIDE
         else OUTSIDE,
         (win_x (pointer env), win_y (pointer env)))]"
proof -
  have "delivered_positions
          (case cursor_shape_m s1 of Some c \<Rightarrow> [OnMouseCursor c] | None \<Rightarrow> []) = []"
    by (cases "cursor_shape_m s1") simp_all
  then show ?thesis
    using Capture_result [OF assms(1,3)] assms(2)
    by (simp add: delivered_positions_append)
qed

theorem Capture_position_state_witness:
  "(\<exists>s' out. Capture False example_monitor \<lparr>pending = [], pointer = example_pointer\<rparr> = Inr (s', out) \<and>
      delivered_positions out = [(OUTSIDE, (40, - 2))]) \<and>
   (\<exists>s' out. Capture False example_monitor
        \<lparr>pending = [], pointer = example_pointer\<lparr>child_window := 9\<rparr>\<rparr> = Inr (s', out) \<and>
      delivered_positions out = [(INSIDE, (40, - 2))]) \<and>
   (\<exists>s' out. Capture False (example_monitor\<lparr>window_m := 1\<rparr>)
        \<lparr>pending = [], pointer = example_pointer\<rparr> = Inr (s', out) \<and>
      delivered_positions out = [(INSIDE, (40, - 2))]) \<and>
   (\<exists>s' out. Capture False (example_monitor\<lparr>window_m := 1\<rparr>)
        \<lparr>pending = [], pointer = example_pointer\<lparr>ptr_error := 3\<rparr>\<rparr> = Inr (s', out) \<and>
      delivered_positions out = [(OUTSIDE, (40, - 2))])"
proof -
  have c: "callback_m example_monitor \<noteq> None" "callback_m (example_monitor\<lparr>window_m := 1\<rparr>) \<noteq> None"
    and m: "mode_m example_monitor = SHAPE_AND_POSITION"
       "mode_m (example_monitor\<lparr>window_m := 1\<rparr>) = SHAPE_AND_POSITION"
    by (simp_all add: example_monitor_def)
  have p: "ProcessPendingXEvents False s (pending \<lparr>pending = [], pointer = q\<rparr>) = Inr s" for s q
    by simp
  show ?thesis
    using Capture_position_state [OF c(1) m(1) p, where q1 = example_pointer]
      Capture_position_state [OF c(1) m(1) p,
        where q1 = "example_pointer\<lparr>child_window := 9\<rparr>"]
      Capture_position_state [OF c(2) m(2) p, where q1 = example_pointer]
      Capture_position_state [OF c(2) m(2) p,
        where q1 = "example_pointer\<lparr>ptr_error := 3\<rparr>"]
    by (simp add: example_monitor_def example_pointer_def X_None_def)
qed

subsection \<open>C3: only the latest shape is delivered\<close>

text \<open>
  C3. Let two display-cursor notifications reach an initialised monitor with Xfixes,
  each with a successful fetch of an image within bounds. After the first the pending
  shape is that of the first image, after the second that of the second image. The
  next \<^verbatim>\<open>Capture\<close> (with no further event pending) makes exactly one
  \<^verbatim>\<open>OnMouseCursor\<close> call, with the shape of the second image, and leaves
  the slot empty; the shape of the first image is never handed over. The same holds
  when both notifications are processed inside that \<^verbatim>\<open>Capture\<close> call.
\<close>

theorem latest_shape_delivered_once:
  assumes "have_xfixes_m s" and "callback_m s \<noteq> None"
    and "ev_type e1 = xfixes_event_base_m s + XFixesCursorNotify"
    and "ev_subtype e1 = XFixesDisplayCursorNotify"
    and "ev_type e2 = xfixes_event_base_m s + XFixesCursorNotify"
    and "ev_subtype e2 = XFixesDisplayCursorNotify"
    and "img r1 = Some im1" and "img_error r1 = 0" and "image_ok im1"
    and "img r2 = Some im2" and "img_error r2 = 0" and "image_ok im2"
  shows "\<exists>s1 s2 s3 out.
     HandleXEvent ndebug s e1 r1 = Inr (False, s1) \<and> cursor_shape_m s1 = Some (stored_shape im1) \<and>
     HandleXEvent ndebug s1 e2 r2 = Inr (False, s2) \<and> cursor_shape_m s2 = Some (stored_shape im2) \<and>
     Capture ndebug s2 \<lparr>pending = [], pointer = q\<rparr> = Inr (s3, out) \<and>
     delivered_shapes out = [stored_shape im2] \<and> cursor_shape_m s3 = None \<and>
     Capture ndebug s \<lparr>pending = [(e1, r1), (e2, r2)], pointer = q\<rparr> = Inr (s3, out)"
proof -
  let ?s1 = "s\<lparr>cursor_shape_m := Some (stored_shape im1)\<rparr>"
  let ?s2 = "s\<lparr>cursor_shape_m := Some (stored_shape im2)\<rparr>"
  let ?pos = "if mode_m s = SHAPE_AND_POSITION then
            [OnMouseCursorPosition
               (if \<not> result q \<or> ptr_error q \<noteq> 0 then OUTSIDE
                else if window_m s = root_window q \<or> child_window q \<noteq> X_None
                     then INSIDE else OUTSIDE)
               (win_x q, win_y q)]
          else []"
  let ?out = "[OnMouseCursor (stored_shape im2)] @ ?pos"
  have h1: "HandleXEvent ndebug s e1 r1 = Inr (False, ?s1)"
    using assms(1,3,4,7,8,9) by (rule HandleXEvent_notify)
  have "HandleXEvent ndebug ?s1 e2 r2 = Inr (False, ?s1\<lparr>cursor_shape_m := Some (stored_shape im2)\<rparr>)"
    using assms(1,5,6,10,11,12) by (intro HandleXEvent_notify) simp_all
  then have h2: "HandleXEvent ndebug ?s1 e2 r2 = Inr (False, ?s2)" by simp
  have p: "ProcessPendingXEvents ndebug s [(e1, r1), (e2, r2)] = Inr ?s2"
    using h1 h2 by simp
  have c2: "Capture ndebug ?s2 \<lparr>pending = [], pointer = q\<rparr> = Inr (?s2\<lparr>cursor_shape_m := None\<rparr>, ?out)"
    using Capture_result [where s = ?s2 and env = "\<lparr>pending = [], pointer = q\<rparr>"
        and ?s1.0 = ?s2 and ndebug = ndebug] assms(2)
    by simp
  have c: "Capture ndebug s \<lparr>pending = [(e1, r1), (e2, r2)], pointer = q\<rparr> =
      Inr (?s2\<lparr>cursor_shape_m := None\<rparr>, ?out)"
    using Capture_result [where s = s
        and env = "\<lparr>pending = [(e1, r1), (e2, r2)], pointer = q\<rparr>"
        and ?s1.0 = ?s2 and ndebug = ndebug] assms(2) p
    by simp
  have d: "delivered_shapes ?out = [stored_shape im2]" by simp
  have "HandleXEvent ndebug s e1 r1 = Inr (False, ?s1) \<and> cursor_shape_m ?s1 = Some (stored_shape im1) \<and>
     HandleXEvent ndebug ?s1 e2 r2 = Inr (False, ?s2) \<and> cursor_shape_m ?s2 = Some (stored_shape im2) \<and>
     Capture ndebug ?s2 \<lparr>pending = [], pointer = q\<rparr> = Inr (?s2\<lparr>cursor_shape_m := None\<rparr>, ?out) \<and>
     delivered_shapes ?out = [stored_shape im2] \<and>
     cursor_shape_m (?s2\<lparr>cursor_shape_m := None\<rparr>) = None \<and>
     Capture ndebug s \<lparr>pending = [(e1, r1), (e2, r2)], pointer = q\<rparr> =
       Inr (?s2\<lparr>cursor_shape_m := None\<rparr>, ?out)"
    using h1 h2 c2 c d by simp
  then show ?thesis by blast
qed

theorem latest_shape_delivered_once_witness:
  "\<exists>s3 out.
     Capture False example_monitor
       \<lparr>pending =
          [(\<lparr>ev_type = 88, ev_subtype = 0\<rparr>, \<lparr>img = Some example_image, img_error = 0\<rparr>),
           (\<lparr>ev_type = 88, ev_subtype = 0\<rparr>,
            \<lparr>img = Some \<lparr>width = 1, height = 1, xhot = 0, yhot = 0, pixels = [0x1FFFFFFFF]\<rparr>,
             img_error = 0\<rparr>)],
        pointer = example_pointer\<rparr> = Inr (s3, out) \<and>
     delivered_shapes out =
       [\<lparr>cursor_image = \<lparr>frame_size = (1, 1), frame_data = [0xFFFFFFFF]\<rparr>,
         cursor_hotspot = (0, 0)\<rparr>] \<and>
     cursor_shape_m s3 = None"
proof -
  let ?e = "\<lparr>ev_type = 88, ev_subtype = 0\<rparr>"
  let ?im2 = "\<lparr>width = 1, height = 1, xhot = 0, yhot = 0, pixels = [0x1FFFFFFFF]\<rparr>"
  have ok: "image_ok example_image" "image_ok ?im2"
    by (simp_all add: image_ok_def INT_MAX_def example_image_def)
  have ev: "ev_type ?e = xfixes_event_base_m example_monitor + XFixesCursorNotify"
    "ev_subtype ?e = XFixesDisplayCursorNotify"
    by (simp_all add: example_monitor_def XFixesCursorNotify_def XFixesDisplayCursorNotify_def)
  have st: "have_xfixes_m example_monitor" "callback_m example_monitor \<noteq> None"
    by (simp_all add: example_monitor_def)
  have sh: "stored_shape ?im2 =
      \<lparr>cursor_image = \<lparr>frame_size = (1, 1), frame_data = [0xFFFFFFFF]\<rparr>,
       cursor_hotspot = (0, 0)\<rparr>"
    by (simp add: stored_shape_def)
  show ?thesis
    using latest_shape_delivered_once [OF st ev ev,
        where ?r1.0 = "\<lparr>img = Some example_image, img_error = 0\<rparr>"
          and ?im1.0 = example_image and ?r2.0 = "\<lparr>img = Some ?im2, img_error = 0\<rparr>"
          and ?im2.0 = ?im2 and q = example_pointer and ndebug = False] ok sh
    by auto
qed

subsection \<open>C4: the pixels of the delivered bitmap\<close>

text \<open>
  C4. For a successfully fetched image of width \<open>w\<close> and height \<open>h\<close> within
  bounds, \<^verbatim>\<open>CaptureCursor\<close> returns and stores a bitmap of size \<open>(w, h)\<close>
  with exactly \<open>w * h\<close> pixels: the first \<open>w * h\<close> native elements in buffer
  order, each reduced to its low 32 bits, so that the pixel at column \<open>x\<close> of row
  \<open>y\<close> is the native element at \<open>y * w + x\<close>. The next \<^verbatim>\<open>Capture\<close>
  delivers this bitmap. On the 2 by 2 image of the specification the bitmap holds the
  four given values in order.
\<close>

theorem CaptureCursor_pixels:
  assumes "have_xfixes_m s" and "img r = Some im" and "img_error r = 0" and "image_ok im"
  shows "\<exists>s' c. CaptureCursor ndebug s r = Inr s' \<and> cursor_shape_m s' = Some c \<and>
     frame_size (cursor_image c) = (uint (width im), uint (height im)) \<and>
     length (frame_data (cursor_image c)) = unat (width im) * unat (height im) \<and>
     frame_data (cursor_image c) =
       map ucast (take (unat (width im) * unat (height im)) (pixels im)) \<and>
     (\<forall>x y. x < unat (width im) \<and> y < unat (height im) \<longrightarrow>
        frame_data (cursor_image c) ! (y * unat (width im) + x) =
        ucast (pixels im ! (y * unat (width im) + x))) \<and>
     (callback_m s \<noteq> None \<longrightarrow>
        (\<exists>s'' out. Capture ndebug s' \<lparr>pending = [], pointer = q\<rparr> = Inr (s'', out) \<and>
           delivered_shapes out = [c]))"
proof -
  let ?n = "unat (width im) * unat (height im)"
  let ?d = "map ucast (take ?n (pixels im)) :: 32 word list"
  have len: "length ?d = ?n" using assms(4) by (simp add: image_ok_def)
  have nth: "?d ! (y * unat (width im) + x) = ucast (pixels im ! (y * unat (width im) + x))"
    if "x < unat (width im)" "y < unat (height im)" for x y
  proof -
    have "Suc y \<le> unat (height im)" using that(2) by simp
    then have "Suc y * unat (width im) \<le> unat (height im) * unat (width im)"
      by (rule mult_le_mono1)
    moreover have "y * unat (width im) + x < Suc y * unat (width im)" using that(1) by simp
    ultimately have "y * unat (width im) + x < ?n" by (simp add: mult.commute)
    then show ?thesis using assms(4) by (simp add: image_ok_def)
  qed
  have "CaptureCursor ndebug s r = Inr (s\<lparr>cursor_shape_m := Some (stored_shape im)\<rparr>)"
    using assms by (rule CaptureCursor_stores)
  moreover have "cursor_shape_m (s\<lparr>cursor_shape_m := Some (stored_shape im)\<rparr>) =
      Some (stored_shape im)" by simp
  moreover have "frame_size (cursor_image (stored_shape im)) = (uint (width im), uint (height im))"
    "frame_data (cursor_image (stored_shape im)) = ?d"
    by (simp_all add: stored_shape_def)
  moreover have "\<exists>s'' out. Capture ndebug (s\<lparr>cursor_shape_m := Some (stored_shape im)\<rparr>)
        \<lparr>pending = [], pointer = q\<rparr> = Inr (s'', out) \<and>
      delivered_shapes out = [stored_shape im]"
    if "callback_m s \<noteq> None"
    using Capture_result [where s = "s\<lparr>cursor_shape_m := Some (stored_shape im)\<rparr>"
        and env = "\<lparr>pending = [], pointer = q\<rparr>"
        and ?s1.0 = "s\<lparr>cursor_shape_m := Some (stored_shape im)\<rparr>"
        and ndebug = ndebug] that
    by (simp add: delivered_shapes_append)
  ultimately show ?thesis using len nth by (metis (no_types, lifting))
qed

theorem CaptureCursor_pixels_witness:
  "\<exists>s' c s'' out.
     CaptureCursor False example_monitor \<lparr>img = Some example_image, img_error = 0\<rparr> = Inr s' \<and>
     cursor_shape_m s' = Some c \<and> frame_size (cursor_image c) = (2, 2) \<and>
     frame_data (cursor_image c) = [0xAABBCCDD, 0x11223344, 0x55667788, 0x99AABBCC] \<and>
     Capture False s' \<lparr>pending = [], pointer = example_pointer\<rparr> = Inr (s'', out) \<and>
     delivered_shapes out = [c]"
proof -
  let ?r = "\<lparr>img = Some example_image, img_error = 0\<rparr>"
  have ok: "image_ok example_image"
    by (simp add: image_ok_def INT_MAX_def example_image_def)
  have st: "have_xfixes_m example_monitor" and cb: "callback_m example_monitor \<noteq> None"
    by (simp_all add: example_monitor_def)
  have r: "img ?r = Some example_image" "img_error ?r = 0" by simp_all
  obtain s' c where f: "CaptureCursor False example_monitor ?r = Inr s'" "cursor_shape_m s' = Some c"
    "frame_size (cursor_image c) = (uint (width example_image), uint (height example_image))"
    "frame_data (cursor_image c) =
       map ucast (take (unat (width example_image) * unat (height example_image))
         (pixels example_image))"
    "callback_m example_monitor \<noteq> None \<longrightarrow>
        (\<exists>s'' out. Capture False s' \<lparr>pending = [], pointer = example_pointer\<rparr> = Inr (s'', out) \<and>
           delivered_shapes out = [c])"
    using CaptureCursor_pixels [OF st r ok, where q = example_pointer and ndebug = False]
    by blast
  from f(5) cb obtain s'' out where
    d: "Capture False s' \<lparr>pending = [], pointer = example_pointer\<rparr> = Inr (s'', out)"
      "delivered_shapes out = [c]"
    by blast
  have "frame_size (cursor_image c) = (2, 2)"
    "frame_data (cursor_image c) = [0xAABBCCDD, 0x11223344, 0x55667788, 0x99AABBCC]"
    using f(3,4) by (simp_all add: example_image_def)
  with f(1,2) d show ?thesis by blast
qed

subsection \<open>C5: without Xfixes no shape is ever delivered\<close>

text \<open>
  C5. If \<^verbatim>\<open>XFixesQueryExtension\<close> reports the extension unavailable at
  \<^verbatim>\<open>Init\<close> of a newly constructed monitor, then \<^verbatim>\<open>Init\<close> succeeds,
  and every later sequence of \<^verbatim>\<open>Capture\<close> and \<^verbatim>\<open>HandleXEvent\<close>
  calls, with any events and any server replies, runs without error and makes no
  \<^verbatim>\<open>OnMouseCursor\<close> call.
\<close>

theorem no_shape_without_xfixes:
  assumes "\<not> xfixes_present ienv"
  shows "\<exists>s. Init ndebug (new_MouseCursorMonitorX11 xd w) (Some cb) mode ienv = Inr s \<and>
     (\<forall>cs. \<exists>s' out. run_calls ndebug s cs = Inr (s', out) \<and> delivered_shapes out = [])"
proof -
  let ?new = "new_MouseCursorMonitorX11 xd w"
  let ?act = "?new\<lparr>callback_m := Some cb, mode_m := mode, have_xfixes_m := False,
           xfixes_event_base_m := event_base_out ienv,
           xfixes_error_base_m := error_base_out ienv\<rparr>"
  have "callback_m ?new = None" by (simp add: new_MouseCursorMonitorX11_def)
  then have i: "Init ndebug ?new (Some cb) mode ienv = Inr ?act"
    using assms by (rule Init_without_xfixes)
  have inv: "\<not> have_xfixes_m ?act" "cursor_shape_m ?act = None" "callback_m ?act \<noteq> None"
    by (simp_all add: new_MouseCursorMonitorX11_def)
  have "\<forall>cs. \<exists>s' out. run_calls ndebug ?act cs = Inr (s', out) \<and> delivered_shapes out = []"
    using run_calls_inert [OF inv] by blast
  with i show ?thesis by blast
qed

theorem no_shape_without_xfixes_witness:
  "\<exists>s. Init False (new_MouseCursorMonitorX11 example_display 3) (Some 7) SHAPE_AND_POSITION
         \<lparr>xfixes_present = False, event_base_out = - 1, error_base_out = - 1,
          first_cursor = \<lparr>img = Some example_image, img_error = 0\<rparr>\<rparr> = Inr s \<and>
     (\<exists>s' out.
        run_calls False s
          [CallHandleXEvent \<lparr>ev_type = 0, ev_subtype = 0\<rparr>
             \<lparr>img = Some example_image, img_error = 0\<rparr>,
           CallCapture \<lparr>pending = [(\<lparr>ev_type = 88, ev_subtype = 0\<rparr>,
                                     \<lparr>img = Some example_image, img_error = 0\<rparr>)],
                        pointer = example_pointer\<rparr>,
           CallCapture \<lparr>pending = [], pointer = example_pointer\<rparr>] = Inr (s', out) \<and>
        delivered_shapes out = [])"
proof -
  let ?ienv = "\<lparr>xfixes_present = False, event_base_out = - 1, error_base_out = - 1,
        first_cursor = \<lparr>img = Some example_image, img_error = 0\<rparr>\<rparr>"
  have h: "\<not> xfixes_present ?ienv" by simp
  obtain s where
    "Init False (new_MouseCursorMonitorX11 example_display 3) (Some 7) SHAPE_AND_POSITION ?ienv = Inr s"
    "\<forall>cs. \<exists>s' out. run_calls False s cs = Inr (s', out) \<and> delivered_shapes out = []"
    using no_shape_without_xfixes [OF h, where ndebug = False and xd = example_display
        and w = 3 and cb = 7
        and mode = SHAPE_AND_POSITION]
    by blast
  then show ?thesis by blast
qed

subsection \<open>C6: GetTopLevelWindow\<close>

text \<open>
  C6. For a window whose ancestor chain up to the child of the root has depth \<open>k\<close>,
  \<^verbatim>\<open>GetTopLevelWindow\<close> returns, and returns the last window of the chain,
  the child of the root containing the window. It ascends \<open>k\<close> times: the windows it
  queries are exactly the windows of the chain, in order, each once (the window itself
  and then one query for each of the \<open>k\<close> ascensions). A child of the root is
  returned itself after one query and no ascension. If the tree query fails for some
  window on the way up, the function returns \<^verbatim>\<open>None\<close> at once: the failing
  query is the last one made.
\<close>

theorem GetTopLevelWindow_ascends:
  "(toplevel_chain dpy (w # ws) \<and> length ws = k \<longrightarrow>
      GetTopLevelWindow dpy w = Some (last (w # ws)) \<and>
      (\<exists>queried. GetTopLevelWindow_loop dpy w [] = Some (last (w # ws), queried) \<and>
         queried = w # ws \<and> length queried = Suc k)) \<and>
   (toplevel_chain dpy [w] \<longrightarrow>
      GetTopLevelWindow dpy w = Some w \<and> GetTopLevelWindow_loop dpy w [] = Some (w, [w])) \<and>
   (broken_chain dpy (w # ws) \<longrightarrow>
      GetTopLevelWindow dpy w = Some X_None \<and>
      GetTopLevelWindow_loop dpy w [] = Some (X_None, w # ws))"
proof (intro conjI impI)
  assume a: "toplevel_chain dpy (w # ws) \<and> length ws = k"
  then have l: "GetTopLevelWindow_loop dpy w [] = Some (last (w # ws), [] @ w # ws)"
    by (intro GetTopLevelWindow_loop_chain) simp
  then show "GetTopLevelWindow dpy w = Some (last (w # ws))"
    by (simp add: GetTopLevelWindow_def)
  show "\<exists>queried. GetTopLevelWindow_loop dpy w [] = Some (last (w # ws), queried) \<and>
         queried = w # ws \<and> length queried = Suc k"
    using l a by simp
next
  assume "toplevel_chain dpy [w]"
  then have l: "GetTopLevelWindow_loop dpy w [] = Some (last [w], [] @ [w])"
    by (rule GetTopLevelWindow_loop_chain)
  then show "GetTopLevelWindow dpy w = Some w" by (simp add: GetTopLevelWindow_def)
  show "GetTopLevelWindow_loop dpy w [] = Some (w, [w])" using l by simp
next
  assume "broken_chain dpy (w # ws)"
  then have l: "GetTopLevelWindow_loop dpy w [] = Some (X_None, [] @ w # ws)"
    by (rule GetTopLevelWindow_loop_broken)
  then show "GetTopLevelWindow dpy w = Some X_None" by (simp add: GetTopLevelWindow_def)
  show "GetTopLevelWindow_loop dpy w [] = Some (X_None, w # ws)" using l by simp
qed

theorem GetTopLevelWindow_ascends_witness:
  "GetTopLevelWindow (display example_display) 5 = Some 3 \<and>
   GetTopLevelWindow_loop (display example_display) 5 [] = Some (3, [5, 4, 3]) \<and>
   GetTopLevelWindow (display example_display) 3 = Some 3 \<and>
   GetTopLevelWindow_loop (display example_display) 3 [] = Some (3, [3]) \<and>
   GetTopLevelWindow (display example_display) 6 = Some X_None \<and>
   GetTopLevelWindow_loop (display example_display) 6 [] = Some (X_None, [6, 9])"
proof -
  have c: "toplevel_chain (display example_display) (5 # [4, 3]) \<and> length [4, 3 :: nat] = 2"
    "toplevel_chain (display example_display) [3]"
    "broken_chain (display example_display) (6 # [9])"
    by (simp_all add: example_display_def)
  show ?thesis
    using GetTopLevelWindow_ascends [of "display example_display" 5 "[4, 3]" 2]
      GetTopLevelWindow_ascends [of "display example_display" 3 "[]" 0]
      GetTopLevelWindow_ascends [of "display example_display" 6 "[9]" 1] c
    by simp
qed

subsection \<open>C7: a failed fetch keeps the pending shape\<close>

text \<open>
  C7. If \<^verbatim>\<open>XFixesGetCursorImage\<close> returns NULL or the error trap holds a
  non-zero code, \<^verbatim>\<open>CaptureCursor\<close> (called with Xfixes present, as its
  assertion demands) returns the object unchanged, the pending shape included; so does
  \<^verbatim>\<open>HandleXEvent\<close>, whatever the event and the state.
\<close>

theorem CaptureCursor_failure_keeps_pending:
  assumes "img r = None \<or> img_error r \<noteq> 0"
  shows "(have_xfixes_m s \<longrightarrow> CaptureCursor ndebug s r = Inr s) \<and>
         HandleXEvent ndebug s event r = Inr (False, s)"
proof -
  have a: "have_xfixes_m s \<Longrightarrow> CaptureCursor ndebug s r = Inr s"
    using assms by (rule CaptureCursor_keeps [rotated])
  then show ?thesis by (simp add: HandleXEvent_def)
qed

theorem CaptureCursor_failure_keeps_pending_witness:
  "CaptureCursor False (example_monitor\<lparr>cursor_shape_m := Some (stored_shape example_image)\<rparr>)
       \<lparr>img = None, img_error = 0\<rparr> =
     Inr (example_monitor\<lparr>cursor_shape_m := Some (stored_shape example_image)\<rparr>) \<and>
   CaptureCursor False (example_monitor\<lparr>cursor_shape_m := Some (stored_shape example_image)\<rparr>)
       \<lparr>img = Some example_image, img_error = 3\<rparr> =
     Inr (example_monitor\<lparr>cursor_shape_m := Some (stored_shape example_image)\<rparr>) \<and>
   CaptureCursor False example_monitor \<lparr>img = Some example_image, img_error = 3\<rparr> =
     Inr example_monitor \<and>
   cursor_shape_m example_monitor = None"
  using
    CaptureCursor_failure_keeps_pending [where r = "\<lparr>img = None, img_error = 0\<rparr>"
      and s = "example_monitor\<lparr>cursor_shape_m := Some (stored_shape example_image)\<rparr>"
      and ndebug = False]
    CaptureCursor_failure_keeps_pending [
      where r = "\<lparr>img = Some example_image, img_error = 3\<rparr>"
      and s = "example_monitor\<lparr>cursor_shape_m := Some (stored_shape example_image)\<rparr>"
      and ndebug = False]
    CaptureCursor_failure_keeps_pending [
      where r = "\<lparr>img = Some example_image, img_error = 3\<rparr>"
      and s = example_monitor and ndebug = False]
  by (simp add: example_monitor_def)

subsection \<open>C8: misuse and the assertions\<close>

text \<open>
  C8, as the specification states it: a second \<^verbatim>\<open>Init\<close> is rejected and
  does not alter the existing subscription state. The checks are
  \<^verbatim>\<open>assert\<close> statements, and in a build with \<^verbatim>\<open>NDEBUG\<close> they are
  absent. There, after a first \<^verbatim>\<open>Init\<close> of the monitor of window 3
  (callback 7, handler registered for event 88), a second \<^verbatim>\<open>Init\<close> returns
  normally: the callback is replaced, and the handler and the cursor input are
  registered a second time.
\<close>

theorem second_Init_with_NDEBUG:
  "\<exists>s'.
     Init True (new_MouseCursorMonitorX11 example_display 3) (Some 7) SHAPE_AND_POSITION
       \<lparr>xfixes_present = True, event_base_out = 87, error_base_out = 140,
        first_cursor = \<lparr>img = None, img_error = 0\<rparr>\<rparr> = Inr example_monitor \<and>
     Init True example_monitor (Some 8) SHAPE_ONLY
       \<lparr>xfixes_present = True, event_base_out = 87, error_base_out = 140,
        first_cursor = \<lparr>img = None, img_error = 0\<rparr>\<rparr> = Inr s' \<and>
     callback_m s' = Some 8 \<and>
     event_handlers (x_display_m example_monitor) = [88] \<and>
     cursor_input (x_display_m example_monitor) = [(3, 1)] \<and>
     event_handlers (x_display_m s') = [88, 88] \<and>
     cursor_input (x_display_m s') = [(3, 1), (3, 1)]"
proof -
  let ?quiet = "\<lparr>xfixes_present = True, event_base_out = 87, error_base_out = 140,
      first_cursor = \<lparr>img = None, img_error = 0\<rparr>\<rparr>"
  let ?s' = "example_monitor\<lparr>callback_m := Some 8, mode_m := SHAPE_ONLY,
      x_display_m := example_display\<lparr>event_handlers := [88, 88],
        cursor_input := [(3, 1), (3, 1)]\<rparr>\<rparr>"
  have a: "Init True (new_MouseCursorMonitorX11 example_display 3) (Some 7) SHAPE_AND_POSITION
      ?quiet = Inr example_monitor"
    by (simp add: Init_def assert_fails_def Let_def new_MouseCursorMonitorX11_def
        CaptureCursor_def example_monitor_def AddEventHandler_def XFixesSelectCursorInput_def
        XFixesCursorNotify_def XFixesDisplayCursorNotifyMask_def example_display_def)
  have b: "Init True example_monitor (Some 8) SHAPE_ONLY ?quiet = Inr ?s'"
    by (simp add: Init_def assert_fails_def Let_def CaptureCursor_def example_monitor_def
        AddEventHandler_def XFixesSelectCursorInput_def XFixesCursorNotify_def
        XFixesDisplayCursorNotifyMask_def example_display_def)
  have c: "event_handlers (x_display_m example_monitor) = [88]"
    "cursor_input (x_display_m example_monitor) = [(3, 1)]"
    by (simp_all add: example_monitor_def)
  from a b c show ?thesis by simp
qed

text \<open>
  C8, amended. In a build where the assertions are active (\<^verbatim>\<open>NDEBUG\<close> not
  defined), \<^verbatim>\<open>Init\<close> on a monitor whose callback is already set,
  \<^verbatim>\<open>Init\<close> with a NULL callback, and \<^verbatim>\<open>Capture\<close> on a monitor
  whose callback is not set (a newly constructed one in particular) stop the program
  with a failed assertion, and at that point the object is exactly as it was before
  the call: no field is written and no registration on the display is added. After a
  successful \<^verbatim>\<open>Init\<close> with a callback, every further
  \<^verbatim>\<open>Init\<close> stops in this way.
\<close>

theorem misuse_fails_assertion:
  "(callback_m s \<noteq> None \<longrightarrow> Init False s callback mode ienv = Inl (AssertionFailed, s)) \<and>
   Init False s None mode ienv = Inl (AssertionFailed, s) \<and>
   (callback_m s = None \<longrightarrow> Capture False s cenv = Inl (AssertionFailed, s)) \<and>
   Capture False (new_MouseCursorMonitorX11 xd w) cenv =
     Inl (AssertionFailed, new_MouseCursorMonitorX11 xd w) \<and>
   (Init ndebug s0 (Some cb) mode0 ienv0 = Inr s1 \<longrightarrow>
      Init False s1 callback mode ienv = Inl (AssertionFailed, s1) \<and>
      x_display_m s1 =
        (if xfixes_present ienv0
         then AddEventHandler (event_base_out ienv0 + XFixesCursorNotify)
                (XFixesSelectCursorInput (window_m s0) XFixesDisplayCursorNotifyMask
                   (x_display_m s0))
         else x_display_m s0))"
proof (intro conjI impI)
  show "Init False s callback mode ienv = Inl (AssertionFailed, s)" if "callback_m s \<noteq> None"
    using that by (simp add: Init_def assert_fails_def)
  show "Init False s None mode ienv = Inl (AssertionFailed, s)"
    by (simp add: Init_def assert_fails_def)
  show "Capture False s cenv = Inl (AssertionFailed, s)" if "callback_m s = None"
    using that by (simp add: Capture_def assert_fails_def)
  show "Capture False (new_MouseCursorMonitorX11 xd w) cenv =
      Inl (AssertionFailed, new_MouseCursorMonitorX11 xd w)"
    by (simp add: Capture_def assert_fails_def new_MouseCursorMonitorX11_def)
next
  assume i: "Init ndebug s0 (Some cb) mode0 ienv0 = Inr s1"
  then have "callback_m s1 = Some cb" by (rule Init_sets_callback)
  then show "Init False s1 callback mode ienv = Inl (AssertionFailed, s1)"
    by (simp add: Init_def assert_fails_def)
  show "x_display_m s1 =
        (if xfixes_present ienv0
         then AddEventHandler (event_base_out ienv0 + XFixesCursorNotify)
                (XFixesSelectCursorInput (window_m s0) XFixesDisplayCursorNotifyMask
                   (x_display_m s0))
         else x_display_m s0)"
    using i by (rule Init_display)
qed

theorem misuse_fails_assertion_witness:
  "Init False example_monitor (Some 8) SHAPE_ONLY
     \<lparr>xfixes_present = True, event_base_out = 87, error_base_out = 140,
      first_cursor = \<lparr>img = Some example_image, img_error = 0\<rparr>\<rparr> =
     Inl (AssertionFailed, example_monitor) \<and>
   Init False (new_MouseCursorMonitorX11 example_display 3) None SHAPE_ONLY
     \<lparr>xfixes_present = True, event_base_out = 87, error_base_out = 140,
      first_cursor = \<lparr>img = Some example_image, img_error = 0\<rparr>\<rparr> =
     Inl (AssertionFailed, new_MouseCursorMonitorX11 example_display 3) \<and>
   Capture False (new_MouseCursorMonitorX11 example_display 3)
     \<lparr>pending = [], pointer = example_pointer\<rparr> =
     Inl (AssertionFailed, new_MouseCursorMonitorX11 example_display 3) \<and>
   Init False (new_MouseCursorMonitorX11 example_display 3) (Some 7) SHAPE_AND_POSITION
     \<lparr>xfixes_present = True, event_base_out = 87, error_base_out = 140,
      first_cursor = \<lparr>img = None, img_error = 0\<rparr>\<rparr> = Inr example_monitor \<and>
   Init False example_monitor (Some 7) SHAPE_AND_POSITION
     \<lparr>xfixes_present = True, event_base_out = 87, error_base_out = 140,
      first_cursor = \<lparr>img = None, img_error = 0\<rparr>\<rparr> =
     Inl (AssertionFailed, example_monitor) \<and>
   event_handlers (x_display_m example_monitor) = [88]"
proof -
  let ?ienv = "\<lparr>xfixes_present = True, event_base_out = 87, error_base_out = 140,
      first_cursor = \<lparr>img = Some example_image, img_error = 0\<rparr>\<rparr>"
  let ?quiet = "\<lparr>xfixes_present = True, event_base_out = 87, error_base_out = 140,
      first_cursor = \<lparr>img = None, img_error = 0\<rparr>\<rparr>"
  let ?new = "new_MouseCursorMonitorX11 example_display 3"
  let ?cenv = "\<lparr>pending = [], pointer = example_pointer\<rparr>"
  have i: "Init False ?new (Some 7) SHAPE_AND_POSITION ?quiet = Inr example_monitor"
    by (simp add: Init_def assert_fails_def Let_def new_MouseCursorMonitorX11_def
        CaptureCursor_def example_monitor_def AddEventHandler_def XFixesSelectCursorInput_def
        XFixesCursorNotify_def XFixesDisplayCursorNotifyMask_def example_display_def)
  have c: "callback_m example_monitor \<noteq> None"
    and h: "event_handlers (x_display_m example_monitor) = [88]"
    by (simp_all add: example_monitor_def)
  have a: "Init False example_monitor (Some 8) SHAPE_ONLY ?ienv =
      Inl (AssertionFailed, example_monitor)"
    using misuse_fails_assertion [where s = example_monitor and callback = "Some 8"
        and mode = SHAPE_ONLY and ienv = ?ienv] c
    by blast
  have b: "Init False ?new None SHAPE_ONLY ?ienv = Inl (AssertionFailed, ?new)"
    "Capture False ?new ?cenv = Inl (AssertionFailed, ?new)"
    using misuse_fails_assertion [where s = ?new and mode = SHAPE_ONLY and ienv = ?ienv
        and xd = example_display and w = 3 and cenv = ?cenv]
    by blast+
  have d: "Init False example_monitor (Some 7) SHAPE_AND_POSITION ?quiet =
      Inl (AssertionFailed, example_monitor)"
    using misuse_fails_assertion [where ndebug = False and ?s0.0 = ?new and cb = 7
        and ?mode0.0 = SHAPE_AND_POSITION and ?ienv0.0 = ?quiet and ?s1.0 = example_monitor
        and callback = "Some 7" and mode = SHAPE_AND_POSITION and ienv = ?quiet] i
    by blast
  from a b i d h show ?thesis by simp
qed

subsection \<open>C9: what the factories return\<close>

text \<open>
  C9. Without a display, \<^verbatim>\<open>CreateForWindow\<close> and
  \<^verbatim>\<open>CreateForScreen\<close> return NULL. With a display,
  \<^verbatim>\<open>CreateForWindow\<close> returns NULL when \<^verbatim>\<open>GetTopLevelWindow\<close>
  returns \<^verbatim>\<open>None\<close>, and a monitor of the window that
  \<^verbatim>\<open>GetTopLevelWindow\<close> returns otherwise; \<^verbatim>\<open>CreateForScreen\<close>
  returns a monitor of the default root window.
\<close>

theorem factories_null_or_bound:
  "(x_display options = None \<longrightarrow>
      CreateForWindow options window = Some None \<and> CreateForScreen options screen = None) \<and>
   (x_display options = Some xd \<and> GetTopLevelWindow (display xd) window = Some X_None \<longrightarrow>
      CreateForWindow options window = Some None) \<and>
   (x_display options = Some xd \<and> GetTopLevelWindow (display xd) window = Some t \<and>
    t \<noteq> X_None \<longrightarrow>
      (\<exists>m. CreateForWindow options window = Some (Some m) \<and> window_m m = t \<and>
         x_display_m m = xd)) \<and>
   (x_display options = Some xd \<longrightarrow>
      (\<exists>m. CreateForScreen options screen = Some m \<and>
         window_m m = DefaultRootWindow (display xd) \<and> x_display_m m = xd))"
  by (simp add: CreateForWindow_def CreateForScreen_def new_MouseCursorMonitorX11_def)

theorem factories_null_or_bound_witness:
  "CreateForWindow \<lparr>x_display = None\<rparr> 5 = Some None \<and>
   CreateForScreen \<lparr>x_display = None\<rparr> 0 = None \<and>
   CreateForWindow \<lparr>x_display = Some example_display\<rparr> 6 = Some None \<and>
   (\<exists>m. CreateForWindow \<lparr>x_display = Some example_display\<rparr> 5 = Some (Some m) \<and>
      window_m m = 3) \<and>
   (\<exists>m. CreateForScreen \<lparr>x_display = Some example_display\<rparr> 0 = Some m \<and>
      window_m m = 1)"
proof -
  have g: "GetTopLevelWindow (display example_display) 6 = Some X_None"
    "GetTopLevelWindow (display example_display) 5 = Some 3"
    using GetTopLevelWindow_loop_broken [of "display example_display" 6 "[9]" "[]"]
      GetTopLevelWindow_loop_chain [of "display example_display" 5 "[4, 3]" "[]"]
    by (simp_all add: GetTopLevelWindow_def example_display_def)
  have d: "DefaultRootWindow (display example_display) = 1"
    by (simp add: example_display_def)
  show ?thesis
    using factories_null_or_bound [of "\<lparr>x_display = None\<rparr>" 5 0]
      factories_null_or_bound [of "\<lparr>x_display = Some example_display\<rparr>" 6 0 example_display]
      factories_null_or_bound [of "\<lparr>x_display = Some example_display\<rparr>" 5 0 example_display 3]
      g d
    by (simp add: X_None_def) blast
qed

subsection \<open>C10: CreateForScreen ignores the screen id\<close>

text \<open>
  C10. \<^verbatim>\<open>CreateForScreen\<close> returns the same result for any two screen ids.
  With a display it is a monitor of the default root window of the display, so the
  monitors made for two different screen ids watch the same window.
\<close>

theorem CreateForScreen_ignores_screen:
  "CreateForScreen options screen = CreateForScreen options screen' \<and>
   (x_display options = Some xd \<longrightarrow>
      CreateForScreen options screen =
        Some (new_MouseCursorMonitorX11 xd (DefaultRootWindow (display xd))) \<and>
      (\<exists>m m'. CreateForScreen options screen = Some m \<and>
         CreateForScreen options screen' = Some m' \<and>
         window_m m = DefaultRootWindow (display xd) \<and> window_m m' = window_m m))"
  by (simp add: CreateForScreen_def new_MouseCursorMonitorX11_def)

theorem CreateForScreen_ignores_screen_witness:
  "\<exists>m m'. CreateForScreen \<lparr>x_display = Some example_display\<rparr> 0 = Some m \<and>
     CreateForScreen \<lparr>x_display = Some example_display\<rparr> 1 = Some m' \<and>
     window_m m = 1 \<and> window_m m' = 1"
proof -
  let ?options = "\<lparr>x_display = Some example_display\<rparr>"
  have x: "x_display ?options = Some example_display" by simp
  have d: "DefaultRootWindow (display example_display) = 1"
    by (simp add: example_display_def)
  obtain m m' where "CreateForScreen ?options 0 = Some m" "CreateForScreen ?options 1 = Some m'"
    "window_m m = DefaultRootWindow (display example_display)" "window_m m' = window_m m"
    using CreateForScreen_ignores_screen [of ?options 0 1 example_display] x by blast
  then show ?thesis using d by auto
qed

end
